theory Spec2Isabelle
  imports Main "HOL-Library.Word" "HOL-Library.Multiset" "HOL-Library.Sublist"
begin

section \<open>The Happy Thoughts API (server.js)\<close>

text \<open>
  The service is an Express application with one Mongoose model, \<open>Thought\<close>, and four
  routes. The embedding keeps the three layers of the source apart:
  \<^item> the schema of \<open>Thought\<close> (its validators and defaults, lines 16 to 46);
  \<^item> the calls the handlers make on the model (\<open>find().sort().limit().exec()\<close>,
    \<open>new Thought\<close>, \<open>save\<close>, \<open>findByIdAndUpdate\<close>), as functions on an explicit store;
  \<^item> the route handlers, which turn the outcome of these calls into a status and a
    JSON body.

  Scope of the model. A request body is a JSON object whose \<open>message\<close> and \<open>action\<close>
  fields are absent or strings; any further fields are kept in the extension of the body
  record. A field of another JSON type would go through the string cast of Mongoose,
  which is not part of server.js. Requests are handled one at a time.
\<close>

subsection \<open>Values\<close>

text \<open>
  A JavaScript string is a sequence of UTF-16 code units, and \<open>value.length\<close> counts
  them. \<open>js\<close> turns an ASCII literal of the source into such a sequence.
\<close>

type_synonym js_string = "16 word list"

definition js :: "string \<Rightarrow> js_string" where
  "js s = map of_char s"

text \<open>
  An ObjectId is a 12-byte value, here the number it denotes. Dates are milliseconds
  since the epoch. \<open>hearts\<close> is a number that only ever receives integer increments.
\<close>

type_synonym object_id = nat
type_synonym date = int

text \<open>
  A Mongoose document of the model. \<open>oid\<close> is the field \<open>_id\<close>. \<open>message\<close> is optional
  in the document: \<open>new Thought({ message: undefined })\<close> builds a document without it,
  and only validation rejects it.
\<close>

record thought =
  oid :: object_id
  message :: "js_string option"
  hearts :: int
  createdAt :: date

subsection \<open>The schema: validators (lines 17 to 41)\<close>

text \<open>
  The error of a failed validator. The two length validators format
  \<open>props.value.length\<close> into their message; the constructor carries that number.
  \<^item> \<open>Required\<close>: "Message is required"
  \<^item> \<open>MinLength n\<close>: "Message must be at least 5 characters. Your message has n characters."
  \<^item> \<open>MaxLength n\<close>: "The maximum length of a message is 140 characters. Your message has n characters."
  \<^item> \<open>HeartsNegative\<close>: "Hearts cannot be negative"
\<close>

datatype validator_error =
    Required
  | MinLength nat
  | MaxLength nat
  | HeartsNegative

text \<open>
  \<open>required: [true, ...]\<close> on a String path: the value must be a string of positive
  length (an absent value and the empty string both fail).
\<close>

definition required_validator :: "js_string option \<Rightarrow> bool" where
  "required_validator v = (case v of None \<Rightarrow> False | Some s \<Rightarrow> length s \<noteq> 0)"

text \<open>Line 23: \<open>return value.length >= 5\<close>, and line 30: \<open>return value.length <= 140\<close>.\<close>

definition min_validator :: "js_string \<Rightarrow> bool" where
  "min_validator v = (length v \<ge> 5)"

definition max_validator :: "js_string \<Rightarrow> bool" where
  "max_validator v = (length v \<le> 140)"

text \<open>Line 40: \<open>min: [0, "Hearts cannot be negative"]\<close>.\<close>

definition hearts_min_validator :: "int \<Rightarrow> bool" where
  "hearts_min_validator h = (0 \<le> h)"

text \<open>
  Validation of one path runs its validators in order, the required validator first,
  and stops at the first that fails; validators other than the required one are skipped
  on an absent value. The result is the entry of the path in \<open>err.errors\<close>, if any.
\<close>

definition validate_message :: "js_string option \<Rightarrow> (string \<times> validator_error) list" where
  "validate_message v =
     (if \<not> required_validator v then [(''message'', Required)]
      else case v of
        None \<Rightarrow> []
      | Some s \<Rightarrow>
          if \<not> min_validator s then [(''message'', MinLength (length s))]
          else if \<not> max_validator s then [(''message'', MaxLength (length s))]
          else [])"

definition validate_hearts :: "int \<Rightarrow> (string \<times> validator_error) list" where
  "validate_hearts h = (if \<not> hearts_min_validator h then [(''hearts'', HeartsNegative)] else [])"

text \<open>Document validation, as \<open>save\<close> runs it: every path of the schema.\<close>

definition validate :: "thought \<Rightarrow> (string \<times> validator_error) list" where
  "validate doc = validate_message (message doc) @ validate_hearts (hearts doc)"

subsection \<open>The store\<close>

text \<open>
  The collection is the list of its documents in insertion order. \<open>connected\<close> says
  whether the database answers. \<open>clock\<close> is the time at which the request being handled
  was issued, and \<open>next_oid\<close> the next identifier the driver hands out. \<open>calls\<close> records
  the operations sent to the database, so that a handler that does not touch the store
  can be told from one that does.
\<close>

datatype store_op = Find | InsertOne | FindOneAndUpdate

record server =
  docs :: "thought list"
  connected :: bool
  clock :: date
  next_oid :: object_id
  calls :: "store_op list"

text \<open>
  What a call on the model can throw: the database does not answer, or the string given
  as an identifier cannot be cast to an ObjectId.
\<close>

datatype store_error = Unreachable | CastError js_string

datatype save_error =
    ValidationError "(string \<times> validator_error) list"
  | StoreError store_error

subsubsection \<open>find().sort({ createdAt: -1 }).limit(20).exec() (lines 64 to 67)\<close>

text \<open>
  The sort is descending on \<open>createdAt\<close>; documents with equal \<open>createdAt\<close> keep their
  insertion order here (the database promises no order between them).
\<close>

definition find_sort_limit :: "server \<Rightarrow> (store_error + thought list) \<times> server" where
  "find_sort_limit st =
     (let st' = st\<lparr>calls := calls st @ [Find]\<rparr> in
      if connected st
      then (Inr (take 20 (sort_key (\<lambda>t. - createdAt t) (docs st))), st')
      else (Inl Unreachable, st'))"

subsubsection \<open>new Thought({ message }) (line 80, defaults of lines 39 and 44)\<close>

text \<open>
  The constructor assigns \<open>_id\<close>, and evaluates the defaults: \<open>hearts\<close> is 0 and
  \<open>createdAt\<close> is \<open>new Date()\<close>, read \<open>elapsed\<close> milliseconds after the request was
  issued (the clock is taken not to run backwards in between).
\<close>

definition new_thought :: "js_string option \<Rightarrow> nat \<Rightarrow> server \<Rightarrow> thought \<times> server" where
  "new_thought m elapsed st =
     (\<lparr>oid = next_oid st, message = m, hearts = 0, createdAt = clock st + int elapsed\<rparr>,
      st\<lparr>clock := clock st + int elapsed, next_oid := next_oid st + 1\<rparr>)"

subsubsection \<open>thought.save() (line 81)\<close>

text \<open>
  \<open>save\<close> validates the document first and sends nothing to the database when
  validation fails; otherwise it inserts the document.
\<close>

definition save :: "thought \<Rightarrow> server \<Rightarrow> (save_error + thought) \<times> server" where
  "save doc st =
     (case validate doc of
        e # es \<Rightarrow> (Inl (ValidationError (e # es)), st)
      | [] \<Rightarrow>
          (let st' = st\<lparr>calls := calls st @ [InsertOne]\<rparr> in
           if connected st
           then (Inr doc, st'\<lparr>docs := docs st @ [doc]\<rparr>)
           else (Inl (StoreError Unreachable), st')))"

subsubsection \<open>findByIdAndUpdate(id, update, { new: true, runValidators: true }) (lines 105 to 109)\<close>

text \<open>
  The identifier of the route is a string, cast to an ObjectId before the query is sent:
  24 hexadecimal digits denote an ObjectId, anything else is a cast error. (Older
  versions of the driver also take any string of 12 bytes.)
\<close>

definition hex_digit :: "16 word \<Rightarrow> nat option" where
  "hex_digit c =
     (if 0x30 \<le> c \<and> c \<le> 0x39 then Some (unat c - 0x30)
      else if 0x61 \<le> c \<and> c \<le> 0x66 then Some (unat c - 0x61 + 10)
      else if 0x41 \<le> c \<and> c \<le> 0x46 then Some (unat c - 0x41 + 10)
      else None)"

fun hex_value :: "nat \<Rightarrow> js_string \<Rightarrow> nat option" where
  "hex_value acc [] = Some acc"
| "hex_value acc (c # cs) =
     (case hex_digit c of None \<Rightarrow> None | Some d \<Rightarrow> hex_value (16 * acc + d) cs)"

definition cast_object_id :: "js_string \<Rightarrow> object_id option" where
  "cast_object_id s = (if length s = 24 then hex_value 0 s else None)"

text \<open>The only update the source builds is \<open>{ $inc: { hearts: n } }\<close>.\<close>

datatype update = Inc_hearts int

fun apply_update :: "update \<Rightarrow> thought \<Rightarrow> thought" where
  "apply_update (Inc_hearts n) t = t\<lparr>hearts := hearts t + n\<rparr>"

text \<open>
  With \<open>runValidators\<close>, Mongoose validates the values of \<open>$set\<close>, \<open>$unset\<close>, \<open>$push\<close>,
  \<open>$addToSet\<close>, \<open>$pull\<close> and \<open>$pullAll\<close>; it does not validate \<open>$inc\<close>, whose result
  only the database knows.
\<close>

fun update_validators :: "update \<Rightarrow> (string \<times> validator_error) list" where
  "update_validators (Inc_hearts n) = []"

text \<open>The first document with the identifier, and the collection with it replaced.\<close>

definition find_by_id :: "object_id \<Rightarrow> thought list \<Rightarrow> thought option" where
  "find_by_id k ts = find (\<lambda>t. oid t = k) ts"

fun update_first :: "object_id \<Rightarrow> (thought \<Rightarrow> thought) \<Rightarrow> thought list \<Rightarrow> thought list" where
  "update_first k f [] = []"
| "update_first k f (t # ts) = (if oid t = k then f t # ts else t # update_first k f ts)"

definition find_by_id_and_update ::
  "js_string \<Rightarrow> update \<Rightarrow> server \<Rightarrow> (save_error + thought option) \<times> server" where
  "find_by_id_and_update id_str upd st =
     (case cast_object_id id_str of
        None \<Rightarrow> (Inl (StoreError (CastError id_str)), st)
      | Some k \<Rightarrow>
          (case update_validators upd of
             e # es \<Rightarrow> (Inl (ValidationError (e # es)), st)
           | [] \<Rightarrow>
               (let st' = st\<lparr>calls := calls st @ [FindOneAndUpdate]\<rparr> in
                if \<not> connected st then (Inl (StoreError Unreachable), st')
                else case find_by_id k (docs st) of
                  None \<Rightarrow> (Inr None, st')
                | Some t \<Rightarrow>
                    (Inr (Some (apply_update upd t)),
                     st'\<lparr>docs := update_first k (apply_update upd) (docs st)\<rparr>))))"

subsection \<open>Requests and responses\<close>

text \<open>
  The bodies of the two requests that have one. The handlers read \<open>req.body.message\<close>
  and \<open>req.body.action\<close> only; whatever else the client sends is the extension of the
  record.
\<close>

record create_body =
  body_message :: "js_string option"

record like_body =
  body_action :: "js_string option"

text \<open>
  The JSON bodies of the responses:
  \<^item> \<open>Endpoints\<close>: the list of routes of \<open>listEndpoints(app)\<close>;
  \<^item> \<open>ThoughtList\<close>, \<open>ThoughtJson\<close>: documents;
  \<^item> \<open>FetchFailed e\<close>: \<open>{ error: "Failed to fetch thoughts", details: e }\<close>;
  \<^item> \<open>CouldNotSave es\<close>: \<open>{ message: "Could not save thought", errors: es }\<close>, where
    \<open>err.errors\<close> is undefined unless \<open>err\<close> is a validation error;
  \<^item> \<open>InvalidAction\<close>: \<open>{ error: "Invalid action. Use 'add' or 'remove'." }\<close>;
  \<^item> \<open>NotFound\<close>: \<open>{ error: "Thought not found" }\<close>;
  \<^item> \<open>UpdateFailed e\<close>: \<open>{ error: "Failed to update like", details: e }\<close>.
\<close>

datatype response_body =
    Endpoints "(string \<times> string list) list"
  | ThoughtList "thought list"
  | ThoughtJson thought
  | FetchFailed store_error
  | CouldNotSave "(string \<times> validator_error) list option"
  | InvalidAction
  | NotFound
  | UpdateFailed save_error

record response =
  status :: nat
  body :: response_body

subsection \<open>The route handlers\<close>

text \<open>\<open>GET /\<close> (lines 57 to 59).\<close>

definition get_root :: "server \<Rightarrow> response \<times> server" where
  "get_root st =
     (\<lparr>status = 200,
       body = Endpoints [(''/'', [''GET'']), (''/thoughts'', [''GET'', ''POST'']),
                         (''/thoughts/:id/like'', [''PUT''])]\<rparr>, st)"

text \<open>\<open>GET /thoughts\<close> (lines 62 to 75).\<close>

definition get_thoughts :: "server \<Rightarrow> response \<times> server" where
  "get_thoughts st =
     (case find_sort_limit st of
        (Inr latestThoughts, st') \<Rightarrow> (\<lparr>status = 200, body = ThoughtList latestThoughts\<rparr>, st')
      | (Inl err, st') \<Rightarrow> (\<lparr>status = 500, body = FetchFailed err\<rparr>, st'))"

text \<open>\<open>POST /thoughts\<close> (lines 78 to 88).\<close>

fun errors_of :: "save_error \<Rightarrow> (string \<times> validator_error) list option" where
  "errors_of (ValidationError es) = Some es"
| "errors_of (StoreError e) = None"

definition post_thoughts :: "nat \<Rightarrow> 'a create_body_scheme \<Rightarrow> server \<Rightarrow> response \<times> server" where
  "post_thoughts elapsed req_body st =
     (case new_thought (body_message req_body) elapsed st of
        (thought, st1) \<Rightarrow>
          (case save thought st1 of
             (Inr saved, st2) \<Rightarrow> (\<lparr>status = 201, body = ThoughtJson saved\<rparr>, st2)
           | (Inl err, st2) \<Rightarrow> (\<lparr>status = 400, body = CouldNotSave (errors_of err)\<rparr>, st2)))"

text \<open>\<open>PUT /thoughts/:id/like\<close> (lines 91 to 121).\<close>

definition put_like :: "js_string \<Rightarrow> 'a like_body_scheme \<Rightarrow> server \<Rightarrow> response \<times> server" where
  "put_like id_str req_body st =
     (let action = body_action req_body in
      if action \<notin> set [Some (js ''add''), Some (js ''remove'')]
      then (\<lparr>status = 400, body = InvalidAction\<rparr>, st)
      else
        (let upd = (if action = Some (js ''add'') then Inc_hearts 1 else Inc_hearts (- 1)) in
         case find_by_id_and_update id_str upd st of
           (Inl err, st') \<Rightarrow> (\<lparr>status = 500, body = UpdateFailed err\<rparr>, st')
         | (Inr None, st') \<Rightarrow> (\<lparr>status = 404, body = NotFound\<rparr>, st')
         | (Inr (Some updatedThought), st') \<Rightarrow>
             (\<lparr>status = 200, body = ThoughtJson updatedThought\<rparr>, st')))"

text \<open>The application: one request, and a sequence of requests in order.\<close>

datatype request =
    GetRoot
  | GetThoughts
  | PostThoughts nat create_body
  | PutLike js_string like_body

fun handle :: "request \<Rightarrow> server \<Rightarrow> response \<times> server" where
  "handle GetRoot st = get_root st"
| "handle GetThoughts st = get_thoughts st"
| "handle (PostThoughts elapsed b) st = post_thoughts elapsed b st"
| "handle (PutLike id_str b) st = put_like id_str b st"

fun run :: "request list \<Rightarrow> server \<Rightarrow> server" where
  "run [] st = st"
| "run (r # rs) st = run rs (snd (handle r st))"

subsection \<open>The declared floor of hearts, and what no request changes\<close>

text \<open>
  The schema declares \<open>hearts >= 0\<close>. \<open>hearts_floor\<close> says that every stored document
  satisfies the validator of line 40.
\<close>

definition hearts_floor :: "server \<Rightarrow> bool" where
  "hearts_floor st = list_all (\<lambda>t. hearts_min_validator (hearts t)) (docs st)"

text \<open>The fields of a document other than \<open>hearts\<close>.\<close>

definition frame :: "thought \<Rightarrow> object_id \<times> js_string option \<times> date" where
  "frame t = (oid t, message t, createdAt t)"

subsection \<open>Reading a list response, and sequences of create requests\<close>

text \<open>The documents of a list response (none in an error response).\<close>

definition listed :: "response \<Rightarrow> thought list" where
  "listed r = (case body r of ThoughtList ts \<Rightarrow> ts | _ \<Rightarrow> [])"

text \<open>A create body that passes the validators of \<open>message\<close>.\<close>

definition acceptable :: "create_body \<Rightarrow> bool" where
  "acceptable b =
     (case body_message b of None \<Rightarrow> False | Some m \<Rightarrow> 5 \<le> length m \<and> length m \<le> 140)"

text \<open>Create requests, each with the time that passes before its \<open>createdAt\<close> is read.\<close>

definition create_requests :: "(nat \<times> create_body) list \<Rightarrow> request list" where
  "create_requests reqs = map (\<lambda>(elapsed, b). PostThoughts elapsed b) reqs"

text \<open>
  A store is chronological when its documents were created at strictly increasing
  times, none after the present: the store of a server whose creations never share a
  millisecond.
\<close>

definition chronological :: "server \<Rightarrow> bool" where
  "chronological st =
     (sorted_wrt (<) (map createdAt (docs st)) \<and> list_all (\<lambda>t. createdAt t \<le> clock st) (docs st))"

subsection \<open>Stores and requests used as examples\<close>

text \<open>A reachable, empty store.\<close>

definition empty_store :: server where
  "empty_store = \<lparr>docs = [], connected = True, clock = 1700000000000, next_oid = 1, calls = []\<rparr>"

text \<open>A reachable store with one thought, and the identifier of that thought as the route has it.\<close>

definition stored_thought :: thought where
  "stored_thought = \<lparr>oid = 10, message = Some (js ''Hello world''), hearts = 0,
                      createdAt = 1699999999000\<rparr>"

definition stored_id :: js_string where
  "stored_id = js ''00000000000000000000000a''"

definition one_thought_store :: server where
  "one_thought_store = \<lparr>docs = [stored_thought], connected = True, clock = 1700000000000,
                         next_oid = 11, calls = []\<rparr>"

text \<open>A create body in which the client also sends \<open>hearts\<close> and \<open>createdAt\<close>.\<close>

record forged_create_body = create_body +
  body_hearts :: int
  body_createdAt :: date

text \<open>A mixed sequence of requests, and 25 create requests one millisecond apart.\<close>

definition example_requests :: "request list" where
  "example_requests =
     [PutLike stored_id \<lparr>body_action = Some (js ''add'')\<rparr>,
      PostThoughts 5 \<lparr>body_message = Some (js ''Second thought'')\<rparr>,
      PutLike stored_id \<lparr>body_action = Some (js ''remove'')\<rparr>,
      PutLike stored_id \<lparr>body_action = Some (js ''remove'')\<rparr>,
      GetThoughts]"

definition twenty_five_creates :: "(nat \<times> create_body) list" where
  "twenty_five_creates = replicate 25 (1, \<lparr>body_message = Some (js ''Hello world'')\<rparr>)"

definition after_25_creates :: server where
  "after_25_creates = run (create_requests twenty_five_creates) empty_store"

section \<open>Properties\<close>

subsection \<open>Validation of the message\<close>

lemma validate_message_cases:
  "validate_message v =
     (case v of None \<Rightarrow> [(''message'', Required)]
      | Some s \<Rightarrow> if length s = 0 then [(''message'', Required)]
                  else if length s < 5 then [(''message'', MinLength (length s))]
                  else if 140 < length s then [(''message'', MaxLength (length s))]
                  else [])"
  by (auto simp: validate_message_def required_validator_def min_validator_def max_validator_def
      split: option.splits)

lemma validate_message_Nil_iff:
  "validate_message v = [] \<longleftrightarrow> (\<exists>m. v = Some m \<and> 5 \<le> length m \<and> length m \<le> 140)"
  by (auto simp: validate_message_cases split: option.splits)

lemma validate_doc_new:
  "validate \<lparr>oid = k, message = m, hearts = 0, createdAt = c\<rparr> = validate_message m"
  by (simp add: validate_def validate_hearts_def hearts_min_validator_def)

subsection \<open>POST /thoughts\<close>

text \<open>The handler, with the calls on the model unfolded.\<close>

lemma post_thoughts_eq:
  "post_thoughts elapsed b st =
    (let t = \<lparr>oid = next_oid st, message = body_message b, hearts = 0,
              createdAt = clock st + int elapsed\<rparr>;
         st1 = st\<lparr>clock := clock st + int elapsed, next_oid := next_oid st + 1\<rparr>
     in case validate_message (body_message b) of
          e # es \<Rightarrow> (\<lparr>status = 400, body = CouldNotSave (Some (e # es))\<rparr>, st1)
        | [] \<Rightarrow>
            if connected st
            then (\<lparr>status = 201, body = ThoughtJson t\<rparr>,
                  st1\<lparr>calls := calls st @ [InsertOne], docs := docs st @ [t]\<rparr>)
            else (\<lparr>status = 400, body = CouldNotSave None\<rparr>,
                  st1\<lparr>calls := calls st @ [InsertOne]\<rparr>))"
  by (cases "validate_message (body_message b)")
     (simp_all add: post_thoughts_def new_thought_def save_def validate_doc_new Let_def)

lemma post_thoughts_accepted:
  assumes "connected st" and "body_message b = Some m" and "5 \<le> length m" and "length m \<le> 140"
  shows "post_thoughts elapsed b st =
     (\<lparr>status = 201,
       body = ThoughtJson \<lparr>oid = next_oid st, message = Some m, hearts = 0,
                           createdAt = clock st + int elapsed\<rparr>\<rparr>,
      st\<lparr>clock := clock st + int elapsed, next_oid := next_oid st + 1,
         calls := calls st @ [InsertOne],
         docs := docs st @ [\<lparr>oid = next_oid st, message = Some m, hearts = 0,
                             createdAt = clock st + int elapsed\<rparr>]\<rparr>)"
proof -
  have "validate_message (body_message b) = []"
    using assms by (simp add: validate_message_Nil_iff)
  then show ?thesis
    using assms by (simp add: post_thoughts_eq Let_def)
qed

lemma post_thoughts_rejected:
  assumes "validate_message (body_message b) = e # es"
  shows "post_thoughts elapsed b st =
     (\<lparr>status = 400, body = CouldNotSave (Some (e # es))\<rparr>,
      st\<lparr>clock := clock st + int elapsed, next_oid := next_oid st + 1\<rparr>)"
  using assms by (simp add: post_thoughts_eq Let_def)

text \<open>
  Claim C1. While the store is reachable, a create request is accepted (status 201)
  exactly when its message is present and has between 5 and 140 code units; a request
  that is not accepted is answered with status 400 and stores nothing. A message of
  length 4 is rejected with the minimum-length error, lengths 5 and 140 are accepted,
  and length 141 is rejected with the maximum-length error.
\<close>

theorem create_accepts_iff_length_5_to_140:
  assumes "connected st"
  shows "(status (fst (post_thoughts elapsed b st)) = 201 \<longleftrightarrow>
            (\<exists>m. body_message b = Some m \<and> 5 \<le> length m \<and> length m \<le> 140))
       \<and> (status (fst (post_thoughts elapsed b st)) \<noteq> 201 \<longrightarrow>
            status (fst (post_thoughts elapsed b st)) = 400
            \<and> docs (snd (post_thoughts elapsed b st)) = docs st)
       \<and> (\<forall>m. body_message b = Some m \<and> length m = 4 \<longrightarrow>
            fst (post_thoughts elapsed b st) =
              \<lparr>status = 400, body = CouldNotSave (Some [(''message'', MinLength 4)])\<rparr>)
       \<and> (\<forall>m. body_message b = Some m \<and> (length m = 5 \<or> length m = 140) \<longrightarrow>
            status (fst (post_thoughts elapsed b st)) = 201)
       \<and> (\<forall>m. body_message b = Some m \<and> length m = 141 \<longrightarrow>
            fst (post_thoughts elapsed b st) =
              \<lparr>status = 400, body = CouldNotSave (Some [(''message'', MaxLength 141)])\<rparr>)"
proof (cases "validate_message (body_message b)")
  case Nil
  then obtain m where m: "body_message b = Some m" "5 \<le> length m" "length m \<le> 140"
    by (auto simp: validate_message_Nil_iff)
  with assms show ?thesis
    by (auto simp: post_thoughts_accepted [OF assms m])
next
  case (Cons e es)
  then have no: "\<not> (\<exists>m. body_message b = Some m \<and> 5 \<le> length m \<and> length m \<le> 140)"
    using validate_message_Nil_iff [of "body_message b"] by simp
  have r: "post_thoughts elapsed b st =
     (\<lparr>status = 400, body = CouldNotSave (Some (validate_message (body_message b)))\<rparr>,
      st\<lparr>clock := clock st + int elapsed, next_oid := next_oid st + 1\<rparr>)"
    using post_thoughts_rejected [OF Cons] Cons by simp
  show ?thesis
    using no by (auto simp: r validate_message_cases)
qed

theorem create_accepts_iff_length_5_to_140_witness:
  "connected empty_store
   \<and> fst (post_thoughts 3 \<lparr>body_message = Some (replicate 4 0x61)\<rparr> empty_store) =
       \<lparr>status = 400, body = CouldNotSave (Some [(''message'', MinLength 4)])\<rparr>
   \<and> status (fst (post_thoughts 3 \<lparr>body_message = Some (replicate 5 0x61)\<rparr> empty_store)) = 201
   \<and> status (fst (post_thoughts 3 \<lparr>body_message = Some (replicate 140 0x61)\<rparr> empty_store)) = 201
   \<and> fst (post_thoughts 3 \<lparr>body_message = Some (replicate 141 0x61)\<rparr> empty_store) =
       \<lparr>status = 400, body = CouldNotSave (Some [(''message'', MaxLength 141)])\<rparr>
   \<and> status (fst (post_thoughts 3 \<lparr>body_message = None\<rparr> empty_store)) \<noteq> 201"
proof -
  have c: "connected empty_store"
    by (simp add: empty_store_def)
  note T = create_accepts_iff_length_5_to_140 [OF c, of 3]
  have "fst (post_thoughts 3 \<lparr>body_message = Some (replicate 4 0x61)\<rparr> empty_store) =
       \<lparr>status = 400, body = CouldNotSave (Some [(''message'', MinLength 4)])\<rparr>"
    by (rule T [THEN conjunct2, THEN conjunct2, THEN conjunct1, rule_format,
          of _ "replicate 4 0x61"]) simp
  moreover
  have "status (fst (post_thoughts 3 \<lparr>body_message = Some (replicate 5 0x61)\<rparr> empty_store)) = 201"
    by (rule T [THEN conjunct2, THEN conjunct2, THEN conjunct2, THEN conjunct1, rule_format,
          of _ "replicate 5 0x61"]) simp
  moreover
  have "status (fst (post_thoughts 3 \<lparr>body_message = Some (replicate 140 0x61)\<rparr> empty_store)) = 201"
    by (rule T [THEN conjunct2, THEN conjunct2, THEN conjunct2, THEN conjunct1, rule_format,
          of _ "replicate 140 0x61"]) simp
  moreover
  have "fst (post_thoughts 3 \<lparr>body_message = Some (replicate 141 0x61)\<rparr> empty_store) =
       \<lparr>status = 400, body = CouldNotSave (Some [(''message'', MaxLength 141)])\<rparr>"
    by (rule T [THEN conjunct2, THEN conjunct2, THEN conjunct2, THEN conjunct2, rule_format,
          of _ "replicate 141 0x61"]) simp
  moreover
  have "status (fst (post_thoughts 3 \<lparr>body_message = None\<rparr> empty_store)) \<noteq> 201"
    using T [THEN conjunct1, of "\<lparr>body_message = None\<rparr>"] by simp
  ultimately show ?thesis
    using c by blast
qed

text \<open>
  Claim C7. When a create request succeeds, the server assigns the identifier (the next
  one of the driver) and \<open>createdAt\<close> (the time at which the default was evaluated), the
  record is stored with \<open>hearts = 0\<close>, its \<open>createdAt\<close> is not before the time at which
  the request was issued, and the whole record is returned with status 201.
\<close>

theorem create_assigns_id_date_and_zero_hearts:
  assumes "connected st" and "body_message b = Some m" and "5 \<le> length m" and "length m \<le> 140"
  shows "fst (post_thoughts elapsed b st) =
           \<lparr>status = 201,
             body = ThoughtJson \<lparr>oid = next_oid st, message = Some m, hearts = 0,
                                 createdAt = clock st + int elapsed\<rparr>\<rparr>
       \<and> docs (snd (post_thoughts elapsed b st)) =
           docs st @ [\<lparr>oid = next_oid st, message = Some m, hearts = 0,
                        createdAt = clock st + int elapsed\<rparr>]
       \<and> hearts (last (docs (snd (post_thoughts elapsed b st)))) = 0
       \<and> clock st \<le> createdAt (last (docs (snd (post_thoughts elapsed b st))))"
  by (simp add: post_thoughts_accepted [OF assms])

theorem create_assigns_id_date_and_zero_hearts_witness:
  "connected empty_store
   \<and> fst (post_thoughts 3 \<lparr>body_message = Some (js ''Hello world'')\<rparr> empty_store) =
       \<lparr>status = 201,
         body = ThoughtJson \<lparr>oid = 1, message = Some (js ''Hello world''), hearts = 0,
                             createdAt = 1700000000003\<rparr>\<rparr>
   \<and> docs (snd (post_thoughts 3 \<lparr>body_message = Some (js ''Hello world'')\<rparr> empty_store)) =
       [\<lparr>oid = 1, message = Some (js ''Hello world''), hearts = 0,
          createdAt = 1700000000003\<rparr>]"
proof -
  have c: "connected empty_store"
    by (simp add: empty_store_def)
  have m: "body_message \<lparr>body_message = Some (js ''Hello world'')\<rparr> = Some (js ''Hello world'')"
    by simp
  have l: "5 \<le> length (js ''Hello world'')" "length (js ''Hello world'') \<le> 140"
    by (simp_all add: js_def)
  show ?thesis
    using c create_assigns_id_date_and_zero_hearts [OF c m l, of 3]
    by (simp add: empty_store_def)
qed

text \<open>
  Claim C8. A create request whose message is not a string of 5 to 140 code units is
  answered with status 400 and an \<open>errors\<close> object with one entry, for the path
  \<open>message\<close>: the required error when the message is absent or empty, the minimum-length
  error when it has 1 to 4 code units, the maximum-length error when it has more than
  140; both length errors carry the length of the message that was sent.
\<close>

theorem create_rejection_names_constraint:
  assumes "\<not> (\<exists>m. body_message b = Some m \<and> 5 \<le> length m \<and> length m \<le> 140)"
  shows "\<exists>e. fst (post_thoughts elapsed b st) =
              \<lparr>status = 400, body = CouldNotSave (Some [(''message'', e)])\<rparr>
           \<and> e = (case body_message b of
                    None \<Rightarrow> Required
                  | Some m \<Rightarrow> if length m = 0 then Required
                              else if length m < 5 then MinLength (length m)
                              else MaxLength (length m))"
proof -
  have ne: "validate_message (body_message b) \<noteq> []"
    using assms by (simp add: validate_message_Nil_iff)
  then obtain e es where v: "validate_message (body_message b) = e # es"
    by (cases "validate_message (body_message b)") auto
  have "e # es = [(''message'',
          (case body_message b of
                    None \<Rightarrow> Required
                  | Some m \<Rightarrow> if length m = 0 then Required
                              else if length m < 5 then MinLength (length m)
                              else MaxLength (length m)))]"
    using v ne by (auto simp: validate_message_cases split: option.splits if_splits)
  then show ?thesis
    by (simp add: post_thoughts_rejected [OF v])
qed

theorem create_rejection_names_constraint_witness:
  "fst (post_thoughts 0 \<lparr>body_message = Some (js ''Hey'')\<rparr> empty_store) =
      \<lparr>status = 400, body = CouldNotSave (Some [(''message'', MinLength 3)])\<rparr>
   \<and> fst (post_thoughts 0 \<lparr>body_message = Some (replicate 150 0x21)\<rparr> empty_store) =
      \<lparr>status = 400, body = CouldNotSave (Some [(''message'', MaxLength 150)])\<rparr>
   \<and> fst (post_thoughts 0 \<lparr>body_message = None\<rparr> empty_store) =
      \<lparr>status = 400, body = CouldNotSave (Some [(''message'', Required)])\<rparr>
   \<and> fst (post_thoughts 0 \<lparr>body_message = Some []\<rparr> empty_store) =
      \<lparr>status = 400, body = CouldNotSave (Some [(''message'', Required)])\<rparr>"
proof -
  have "fst (post_thoughts 0 \<lparr>body_message = Some (js ''Hey'')\<rparr> empty_store) =
      \<lparr>status = 400, body = CouldNotSave (Some [(''message'', MinLength 3)])\<rparr>"
    using create_rejection_names_constraint
      [of "\<lparr>body_message = Some (js ''Hey'')\<rparr>" 0 empty_store]
    by (simp add: js_def)
  moreover
  have "fst (post_thoughts 0 \<lparr>body_message = Some (replicate 150 0x21)\<rparr> empty_store) =
      \<lparr>status = 400, body = CouldNotSave (Some [(''message'', MaxLength 150)])\<rparr>"
    using create_rejection_names_constraint
      [of "\<lparr>body_message = Some (replicate 150 0x21)\<rparr>" 0 empty_store]
    by simp
  moreover
  have "fst (post_thoughts 0 \<lparr>body_message = None\<rparr> empty_store) =
      \<lparr>status = 400, body = CouldNotSave (Some [(''message'', Required)])\<rparr>"
    using create_rejection_names_constraint [of "\<lparr>body_message = None\<rparr>" 0 empty_store]
    by simp
  moreover
  have "fst (post_thoughts 0 \<lparr>body_message = Some []\<rparr> empty_store) =
      \<lparr>status = 400, body = CouldNotSave (Some [(''message'', Required)])\<rparr>"
    using create_rejection_names_constraint [of "\<lparr>body_message = Some []\<rparr>" 0 empty_store]
    by simp
  ultimately show ?thesis
    by blast
qed

text \<open>
  Claim C10. The create handler reads \<open>req.body.message\<close> only: two bodies with the same
  message, whatever else they contain, give the same response and the same store. The
  record returned and the record stored have \<open>hearts = 0\<close> and the identifier and
  \<open>createdAt\<close> of the server, whatever the body says.
\<close>

theorem create_reads_only_message:
  assumes "body_message b1 = body_message b2"
  shows "post_thoughts elapsed b1 st = post_thoughts elapsed b2 st
       \<and> (\<forall>t. body (fst (post_thoughts elapsed b1 st)) = ThoughtJson t \<longrightarrow>
            hearts t = 0 \<and> createdAt t = clock st + int elapsed \<and> oid t = next_oid st)
       \<and> (\<forall>t \<in> set (docs (snd (post_thoughts elapsed b1 st))) - set (docs st).
            hearts t = 0 \<and> createdAt t = clock st + int elapsed \<and> oid t = next_oid st)"
  using assms
  by (cases "validate_message (body_message b2)")
     (auto simp: post_thoughts_eq Let_def)

theorem create_reads_only_message_witness:
  "post_thoughts 3 \<lparr>body_message = Some (js ''Hello world''), body_hearts = 9999,
                     body_createdAt = 0\<rparr> empty_store
   = post_thoughts 3 \<lparr>body_message = Some (js ''Hello world'')\<rparr> empty_store
   \<and> body (fst (post_thoughts 3 \<lparr>body_message = Some (js ''Hello world''), body_hearts = 9999,
                     body_createdAt = 0\<rparr> empty_store)) =
       ThoughtJson \<lparr>oid = 1, message = Some (js ''Hello world''), hearts = 0,
                     createdAt = 1700000000003\<rparr>"
proof -
  have "post_thoughts 3 \<lparr>body_message = Some (js ''Hello world''), body_hearts = 9999,
                     body_createdAt = 0\<rparr> empty_store
   = post_thoughts 3 \<lparr>body_message = Some (js ''Hello world'')\<rparr> empty_store"
    by (rule create_reads_only_message [THEN conjunct1]) simp
  moreover
  have "connected empty_store"
    by (simp add: empty_store_def)
  then have "post_thoughts 3 \<lparr>body_message = Some (js ''Hello world'')\<rparr> empty_store =
     (\<lparr>status = 201,
       body = ThoughtJson \<lparr>oid = next_oid empty_store, message = Some (js ''Hello world''),
                           hearts = 0, createdAt = clock empty_store + int 3\<rparr>\<rparr>,
      empty_store\<lparr>clock := clock empty_store + int 3, next_oid := next_oid empty_store + 1,
         calls := calls empty_store @ [InsertOne],
         docs := docs empty_store @ [\<lparr>oid = next_oid empty_store, message = Some (js ''Hello world''), hearts = 0,
                             createdAt = clock empty_store + int 3\<rparr>]\<rparr>)"
    by (rule post_thoughts_accepted) (simp_all add: js_def)
  ultimately show ?thesis
    by (simp add: empty_store_def)
qed

subsection \<open>PUT /thoughts/:id/like\<close>

lemma js_add_neq_remove: "js ''add'' \<noteq> js ''remove''"
  by (simp add: js_def)

lemma cast_stored_id: "cast_object_id stored_id = Some 10"
  by (simp add: stored_id_def cast_object_id_def hex_digit_def js_def)

lemma find_by_id_update_first:
  assumes "\<And>t. oid (f t) = oid t"
  shows "find_by_id j (update_first k f ts) =
           (if j = k then map_option f (find_by_id k ts) else find_by_id j ts)"
  using assms by (induction ts) (auto simp: find_by_id_def)

lemma update_first_nth:
  "i < length ts \<Longrightarrow> update_first k f ts ! i = ts ! i \<or> update_first k f ts ! i = f (ts ! i)"
  by (induction ts arbitrary: i) (auto simp: nth_Cons split: nat.splits)

lemma map_frame_update_first:
  assumes "\<And>t. frame (f t) = frame t"
  shows "map frame (update_first k f ts) = map frame ts"
  using assms by (induction ts) auto

lemma update_first_set:
  "find_by_id k ts = Some t \<Longrightarrow> f t \<in> set (update_first k f ts)"
  by (induction ts) (auto simp: find_by_id_def split: if_splits)

text \<open>The handler, with the call on the model unfolded: first an invalid action, then a valid one.\<close>

lemma put_like_invalid:
  assumes "body_action b \<noteq> Some (js ''add'')" and "body_action b \<noteq> Some (js ''remove'')"
  shows "put_like id_str b st = (\<lparr>status = 400, body = InvalidAction\<rparr>, st)"
  using assms by (simp add: put_like_def Let_def)

lemma put_like_valid:
  assumes "body_action b = Some (js ''add'') \<and> n = 1 \<or> body_action b = Some (js ''remove'') \<and> n = - 1"
  shows "put_like id_str b st =
     (case cast_object_id id_str of
        None \<Rightarrow> (\<lparr>status = 500, body = UpdateFailed (StoreError (CastError id_str))\<rparr>, st)
      | Some k \<Rightarrow>
          if \<not> connected st
          then (\<lparr>status = 500, body = UpdateFailed (StoreError Unreachable)\<rparr>,
                st\<lparr>calls := calls st @ [FindOneAndUpdate]\<rparr>)
          else case find_by_id k (docs st) of
            None \<Rightarrow> (\<lparr>status = 404, body = NotFound\<rparr>, st\<lparr>calls := calls st @ [FindOneAndUpdate]\<rparr>)
          | Some t \<Rightarrow>
              (\<lparr>status = 200, body = ThoughtJson (t\<lparr>hearts := hearts t + n\<rparr>)\<rparr>,
               st\<lparr>calls := calls st @ [FindOneAndUpdate],
                  docs := update_first k (\<lambda>t. t\<lparr>hearts := hearts t + n\<rparr>) (docs st)\<rparr>))"
proof -
  have a: "\<And>i. apply_update (Inc_hearts i) = (\<lambda>t. t\<lparr>hearts := hearts t + i\<rparr>)"
    by (rule ext) simp
  show ?thesis
    using assms js_add_neq_remove
    by (auto simp: put_like_def Let_def find_by_id_and_update_def a
        split: option.splits)
qed

lemma put_like_connected: "connected (snd (put_like id_str b st)) = connected st"
proof (cases "body_action b = Some (js ''add'') \<or> body_action b = Some (js ''remove'')")
  case True
  then obtain n :: int where
    "body_action b = Some (js ''add'') \<and> n = 1 \<or> body_action b = Some (js ''remove'') \<and> n = - 1"
    by auto
  then show ?thesis
    by (simp add: put_like_valid split: option.splits)
next
  case False
  then show ?thesis
    by (simp add: put_like_invalid)
qed

lemma put_like_add_found:
  assumes "connected st" and "cast_object_id id_str = Some k"
    and "find_by_id k (docs st) = Some t" and "body_action b = Some (js ''add'')"
  shows "put_like id_str b st =
     (\<lparr>status = 200, body = ThoughtJson (t\<lparr>hearts := hearts t + 1\<rparr>)\<rparr>,
      st\<lparr>calls := calls st @ [FindOneAndUpdate],
         docs := update_first k (\<lambda>t. t\<lparr>hearts := hearts t + 1\<rparr>) (docs st)\<rparr>)"
  using assms by (simp add: put_like_valid [where n = 1])

lemma put_like_remove_found:
  assumes "connected st" and "cast_object_id id_str = Some k"
    and "find_by_id k (docs st) = Some t" and "body_action b = Some (js ''remove'')"
  shows "put_like id_str b st =
     (\<lparr>status = 200, body = ThoughtJson (t\<lparr>hearts := hearts t - 1\<rparr>)\<rparr>,
      st\<lparr>calls := calls st @ [FindOneAndUpdate],
         docs := update_first k (\<lambda>t. t\<lparr>hearts := hearts t - 1\<rparr>) (docs st)\<rparr>)"
  using assms by (simp add: put_like_valid [where n = "- 1"])

lemma run_replicate_add:
  assumes "connected st" and "cast_object_id id_str = Some k"
    and "find_by_id k (docs st) = Some t" and "body_action b = Some (js ''add'')"
  shows "find_by_id k (docs (run (replicate N (PutLike id_str b)) st)) =
           Some (t\<lparr>hearts := hearts t + int N\<rparr>)"
  using assms
proof (induction N arbitrary: st t)
  case 0
  then show ?case by simp
next
  case (Suc N)
  let ?st = "snd (put_like id_str b st)"
  have c: "connected ?st"
    using Suc.prems(1) by (simp add: put_like_connected)
  have f: "find_by_id k (docs ?st) = Some (t\<lparr>hearts := hearts t + 1\<rparr>)"
    using Suc.prems by (simp add: put_like_add_found find_by_id_update_first)
  have "find_by_id k (docs (run (replicate N (PutLike id_str b)) ?st)) =
          Some (t\<lparr>hearts := hearts t + 1, hearts := hearts t + 1 + int N\<rparr>)"
    using Suc.IH [OF c Suc.prems(2) f Suc.prems(4)] by simp
  then show ?case
    by (simp add: add.assoc)
qed

text \<open>
  Claim C2. While the store is reachable, a like request with action "add" on the
  identifier of a stored thought answers 200 with that thought, its \<open>hearts\<close> increased
  by exactly 1, and stores it so. After \<open>N\<close> such requests the thought has \<open>N\<close> more
  hearts; one that started at 0 has \<open>N\<close>.
\<close>

theorem like_add_increments_hearts:
  assumes "connected st" and "cast_object_id id_str = Some k"
    and "find_by_id k (docs st) = Some t" and "body_action b = Some (js ''add'')"
  shows "fst (put_like id_str b st) =
           \<lparr>status = 200, body = ThoughtJson (t\<lparr>hearts := hearts t + 1\<rparr>)\<rparr>
       \<and> find_by_id k (docs (snd (put_like id_str b st))) = Some (t\<lparr>hearts := hearts t + 1\<rparr>)
       \<and> find_by_id k (docs (run (replicate N (PutLike id_str b)) st)) =
           Some (t\<lparr>hearts := hearts t + int N\<rparr>)
       \<and> (hearts t = 0 \<longrightarrow>
            map_option hearts (find_by_id k (docs (run (replicate N (PutLike id_str b)) st))) =
              Some (int N))"
  using assms
  by (simp add: put_like_add_found find_by_id_update_first run_replicate_add)

lemma one_thought_store_facts:
  "connected one_thought_store"
  "find_by_id 10 (docs one_thought_store) = Some stored_thought"
  "hearts stored_thought = 0"
  by (simp_all add: one_thought_store_def find_by_id_def stored_thought_def)

theorem like_add_increments_hearts_witness:
  "connected one_thought_store
   \<and> cast_object_id stored_id = Some 10
   \<and> find_by_id 10 (docs one_thought_store) = Some stored_thought
   \<and> fst (put_like stored_id \<lparr>body_action = Some (js ''add'')\<rparr> one_thought_store) =
        \<lparr>status = 200, body = ThoughtJson (stored_thought\<lparr>hearts := 1\<rparr>)\<rparr>
   \<and> map_option hearts (find_by_id 10 (docs (run (replicate 7
         (PutLike stored_id \<lparr>body_action = Some (js ''add'')\<rparr>)) one_thought_store))) = Some 7"
proof -
  have a: "body_action \<lparr>body_action = Some (js ''add'')\<rparr> = Some (js ''add'')"
    by simp
  show ?thesis
    using one_thought_store_facts cast_stored_id
      like_add_increments_hearts [OF one_thought_store_facts(1) cast_stored_id
        one_thought_store_facts(2) a, of 7]
    by simp
qed

text \<open>
  Claim C3. The floor of \<open>hearts\<close> is declared (document validation rejects \<open>-1\<close>) but
  the like route does not keep it: the update is a \<open>$inc\<close>, which no validator sees, so
  "remove" on a stored thought with \<open>hearts = 0\<close> answers 200 with \<open>hearts = -1\<close>, stores
  it so, and leaves a store that does not satisfy the floor.
\<close>

theorem unlike_at_zero_goes_negative:
  assumes "connected st" and "cast_object_id id_str = Some k"
    and "find_by_id k (docs st) = Some t" and "hearts t = 0"
    and "body_action b = Some (js ''remove'')"
  shows "validate_hearts (hearts t - 1) = [(''hearts'', HeartsNegative)]
       \<and> fst (put_like id_str b st) =
           \<lparr>status = 200, body = ThoughtJson (t\<lparr>hearts := - 1\<rparr>)\<rparr>
       \<and> find_by_id k (docs (snd (put_like id_str b st))) = Some (t\<lparr>hearts := - 1\<rparr>)
       \<and> \<not> hearts_floor (snd (put_like id_str b st))"
proof -
  let ?f = "\<lambda>t. t\<lparr>hearts := hearts t - 1\<rparr>"
  have r: "put_like id_str b st =
     (\<lparr>status = 200, body = ThoughtJson (?f t)\<rparr>,
      st\<lparr>calls := calls st @ [FindOneAndUpdate], docs := update_first k ?f (docs st)\<rparr>)"
    using assms by (simp add: put_like_remove_found)
  have "?f t \<in> set (update_first k ?f (docs st))"
    using assms(3) by (rule update_first_set)
  moreover have "\<not> 0 \<le> hearts (?f t)"
    using assms(4) by simp
  ultimately have "\<exists>u \<in> set (update_first k ?f (docs st)). \<not> 0 \<le> hearts u"
    by (rule rev_bexI)
  then have "\<not> hearts_floor (snd (put_like id_str b st))"
    by (simp add: r hearts_floor_def list_all_iff hearts_min_validator_def)
  then show ?thesis
    using assms
    by (simp add: r find_by_id_update_first validate_hearts_def hearts_min_validator_def)
qed

theorem unlike_at_zero_goes_negative_witness:
  "hearts_floor one_thought_store
   \<and> hearts stored_thought = 0
   \<and> fst (put_like stored_id \<lparr>body_action = Some (js ''remove'')\<rparr> one_thought_store) =
        \<lparr>status = 200, body = ThoughtJson (stored_thought\<lparr>hearts := - 1\<rparr>)\<rparr>
   \<and> find_by_id 10 (docs (snd (put_like stored_id \<lparr>body_action = Some (js ''remove'')\<rparr>
        one_thought_store))) = Some (stored_thought\<lparr>hearts := - 1\<rparr>)
   \<and> \<not> hearts_floor (snd (put_like stored_id \<lparr>body_action = Some (js ''remove'')\<rparr>
        one_thought_store))"
proof -
  have a: "body_action \<lparr>body_action = Some (js ''remove'')\<rparr> = Some (js ''remove'')"
    by simp
  have h: "hearts_floor one_thought_store"
    by (simp add: hearts_floor_def one_thought_store_def stored_thought_def
        hearts_min_validator_def)
  show ?thesis
    using h one_thought_store_facts(3)
      unlike_at_zero_goes_negative [OF one_thought_store_facts(1) cast_stored_id
        one_thought_store_facts(2) one_thought_store_facts(3) a]
    by simp
qed

text \<open>
  Claim C5. A like request whose action is anything but "add" or "remove" (also an
  absent one) is answered with status 400, and the server is left exactly as it was: no
  call is made on the store and no document changes.
\<close>

theorem invalid_action_rejected_without_store_access:
  assumes "body_action b \<noteq> Some (js ''add'')" and "body_action b \<noteq> Some (js ''remove'')"
  shows "put_like id_str b st = (\<lparr>status = 400, body = InvalidAction\<rparr>, st)
       \<and> calls (snd (put_like id_str b st)) = calls st
       \<and> docs (snd (put_like id_str b st)) = docs st"
  using assms by (simp add: put_like_invalid)

theorem invalid_action_rejected_without_store_access_witness:
  "put_like stored_id \<lparr>body_action = Some (js ''toggle'')\<rparr> one_thought_store =
     (\<lparr>status = 400, body = InvalidAction\<rparr>, one_thought_store)
   \<and> put_like stored_id \<lparr>body_action = None\<rparr> one_thought_store =
     (\<lparr>status = 400, body = InvalidAction\<rparr>, one_thought_store)
   \<and> calls (snd (put_like stored_id \<lparr>body_action = Some (js ''toggle'')\<rparr> one_thought_store)) = []
   \<and> docs (snd (put_like stored_id \<lparr>body_action = Some (js ''toggle'')\<rparr> one_thought_store)) =
       [stored_thought]"
proof -
  have t: "body_action \<lparr>body_action = Some (js ''toggle'')\<rparr> \<noteq> Some (js ''add'')"
    "body_action \<lparr>body_action = Some (js ''toggle'')\<rparr> \<noteq> Some (js ''remove'')"
    by (simp_all add: js_def)
  have n: "body_action \<lparr>body_action = None\<rparr> \<noteq> Some (js ''add'')"
    "body_action \<lparr>body_action = None\<rparr> \<noteq> Some (js ''remove'')"
    by simp_all
  show ?thesis
    using invalid_action_rejected_without_store_access [OF t, of stored_id one_thought_store]
      invalid_action_rejected_without_store_access [OF n, of stored_id one_thought_store]
    by (simp add: one_thought_store_def)
qed

text \<open>
  Claim C6, as stated, fails: the identifier \<open>bad-id\<close> identifies no stored record, and
  a like request on it with a valid action is answered with status 500, not 404. The
  cast of the identifier raises inside the \<open>try\<close> block, and the \<open>catch\<close> branch of
  lines 116 to 120 answers.
\<close>

theorem like_malformed_id_is_server_error:
  "docs empty_store = []
   \<and> fst (put_like (js ''bad-id'') \<lparr>body_action = Some (js ''add'')\<rparr> empty_store) =
       \<lparr>status = 500, body = UpdateFailed (StoreError (CastError (js ''bad-id'')))\<rparr>
   \<and> status (fst (put_like (js ''bad-id'') \<lparr>body_action = Some (js ''add'')\<rparr> empty_store)) \<noteq> 404"
proof -
  have c: "cast_object_id (js ''bad-id'') = None"
    by (simp add: cast_object_id_def js_def)
  have "put_like (js ''bad-id'') \<lparr>body_action = Some (js ''add'')\<rparr> empty_store =
     (\<lparr>status = 500, body = UpdateFailed (StoreError (CastError (js ''bad-id'')))\<rparr>, empty_store)"
    by (simp add: put_like_valid [where n = 1] c)
  then show ?thesis
    by (simp add: empty_store_def)
qed

text \<open>
  Claim C6, amended. While the store is reachable, a like request with a valid action
  whose identifier is a well-formed ObjectId (24 hexadecimal digits) that identifies no
  stored record is answered with status 404, and no document changes.
\<close>

theorem like_unknown_object_id_not_found:
  assumes "connected st"
    and "body_action b = Some (js ''add'') \<or> body_action b = Some (js ''remove'')"
    and "cast_object_id id_str = Some k"
    and "find_by_id k (docs st) = None"
  shows "fst (put_like id_str b st) = \<lparr>status = 404, body = NotFound\<rparr>
       \<and> docs (snd (put_like id_str b st)) = docs st"
proof -
  obtain n :: int where
    "body_action b = Some (js ''add'') \<and> n = 1 \<or> body_action b = Some (js ''remove'') \<and> n = - 1"
    using assms(2) by auto
  then show ?thesis
    using assms by (simp add: put_like_valid)
qed

theorem like_unknown_object_id_not_found_witness:
  "connected one_thought_store
   \<and> cast_object_id (js ''00000000000000000000000B'') = Some 11
   \<and> find_by_id 11 (docs one_thought_store) = None
   \<and> fst (put_like (js ''00000000000000000000000B'') \<lparr>body_action = Some (js ''remove'')\<rparr>
        one_thought_store) = \<lparr>status = 404, body = NotFound\<rparr>
   \<and> docs (snd (put_like (js ''00000000000000000000000B'') \<lparr>body_action = Some (js ''remove'')\<rparr>
        one_thought_store)) = [stored_thought]"
proof -
  have c: "cast_object_id (js ''00000000000000000000000B'') = Some 11"
    by (simp add: cast_object_id_def hex_digit_def js_def)
  have f: "find_by_id 11 (docs one_thought_store) = None"
    by (simp add: find_by_id_def one_thought_store_def stored_thought_def)
  have a: "body_action \<lparr>body_action = Some (js ''remove'')\<rparr> = Some (js ''add'')
         \<or> body_action \<lparr>body_action = Some (js ''remove'')\<rparr> = Some (js ''remove'')"
    by simp
  show ?thesis
    using c f one_thought_store_facts(1)
      like_unknown_object_id_not_found [OF one_thought_store_facts(1) a c f]
    by (simp add: one_thought_store_def)
qed

subsection \<open>GET /thoughts\<close>

lemma get_thoughts_connected:
  assumes "connected st"
  shows "get_thoughts st =
     (\<lparr>status = 200, body = ThoughtList (take 20 (sort_key (\<lambda>t. - createdAt t) (docs st)))\<rparr>,
      st\<lparr>calls := calls st @ [Find]\<rparr>)"
  using assms by (simp add: get_thoughts_def find_sort_limit_def Let_def)

lemma listed_get_thoughts:
  "connected st \<Longrightarrow>
     listed (fst (get_thoughts st)) = take 20 (sort_key (\<lambda>t. - createdAt t) (docs st))"
  by (simp add: get_thoughts_connected listed_def)

lemma sorted_desc_take:
  fixes ts :: "thought list"
  defines "ys \<equiv> sort_key (\<lambda>t. - createdAt t) ts"
  shows "sorted_wrt (\<lambda>a b. createdAt b \<le> createdAt a) (take n ys)"
proof -
  have "sorted (map (\<lambda>t. - createdAt t) ys)"
    unfolding ys_def by (rule sorted_sort_key)
  then have "sorted_wrt (\<lambda>a b. createdAt b \<le> createdAt a) ys"
    by (simp add: sorted_wrt_map)
  then show ?thesis
    by (rule sorted_wrt_take)
qed

lemma top_of_sorted_desc:
  fixes ts :: "thought list"
  defines "ys \<equiv> sort_key (\<lambda>t. - createdAt t) ts"
  assumes "a \<in> set (take n ys)" and "b \<in># mset ts - mset (take n ys)"
  shows "createdAt b \<le> createdAt a"
proof -
  have "sorted (map (\<lambda>t. - createdAt t) ys)"
    unfolding ys_def by (rule sorted_sort_key)
  then have s: "sorted_wrt (\<lambda>a b. createdAt b \<le> createdAt a) (take n ys @ drop n ys)"
    by (simp add: sorted_wrt_map)
  have "mset ts = mset (take n ys) + mset (drop n ys)"
    unfolding ys_def by (metis append_take_drop_id mset_append mset_sort)
  then have "mset ts - mset (take n ys) = mset (drop n ys)"
    by simp
  then have "b \<in> set (drop n ys)"
    using assms(3) by simp
  moreover
  have "\<forall>x \<in> set (take n ys). \<forall>y \<in> set (drop n ys). createdAt y \<le> createdAt x"
    using s unfolding sorted_wrt_append by blast
  ultimately show ?thesis
    using assms(2) by blast
qed

lemma mset_take_sort_subset:
  "mset (take n (sort_key f ts)) \<subseteq># mset ts"
proof -
  have "mset (take n (sort_key f ts)) \<subseteq># mset (take n (sort_key f ts)) + mset (drop n (sort_key f ts))"
    by simp
  also have "\<dots> = mset ts"
    by (metis append_take_drop_id mset_append mset_sort)
  finally show ?thesis .
qed

lemma sort_desc_chronological:
  assumes "sorted_wrt (<) (map createdAt ts)"
  shows "sort_key (\<lambda>t. - createdAt t) ts = rev ts"
proof (rule map_sorted_distinct_set_unique [where f = "\<lambda>t. - createdAt t"])
  let ?f = "\<lambda>t. - createdAt t"
  have d: "distinct (map createdAt ts)" and s: "sorted (map createdAt ts)"
    using assms by (simp_all add: strict_sorted_iff)
  have inj: "inj_on createdAt (set ts)" and dts: "distinct ts"
    using d by (simp_all add: distinct_map)
  then have injf: "inj_on ?f (set ts)"
    by (auto simp: inj_on_def)
  show "inj_on ?f (set (sort_key ?f ts) \<union> set (rev ts))"
    using injf by simp
  show "sorted (map ?f (sort_key ?f ts))"
    by (rule sorted_sort_key)
  show "distinct (map ?f (sort_key ?f ts))"
    using injf dts by (simp add: distinct_map)
  have "sorted_wrt (\<lambda>a b. createdAt a \<le> createdAt b) ts"
    using s by (simp add: sorted_wrt_map)
  then have "sorted_wrt (\<lambda>a b. createdAt b \<le> createdAt a) (rev ts)"
    by (simp add: sorted_wrt_rev)
  then show "sorted (map ?f (rev ts))"
    by (simp add: sorted_wrt_map del: rev_map)
  show "distinct (map ?f (rev ts))"
    using injf dts by (simp add: distinct_map del: rev_map)
  show "set (sort_key ?f ts) = set (rev ts)"
    by simp
qed

lemma post_thoughts_acceptable:
  assumes "connected st" and "acceptable b"
  shows "snd (post_thoughts elapsed b st) =
      st\<lparr>clock := clock st + int elapsed, next_oid := next_oid st + 1,
         calls := calls st @ [InsertOne],
         docs := docs st @ [\<lparr>oid = next_oid st, message = body_message b, hearts = 0,
                             createdAt = clock st + int elapsed\<rparr>]\<rparr>"
proof -
  obtain m where "body_message b = Some m" "5 \<le> length m" "length m \<le> 140"
    using assms(2) by (auto simp: acceptable_def split: option.splits)
  then show ?thesis
    using assms(1) by (simp add: post_thoughts_accepted)
qed

lemma run_create_requests:
  assumes "connected st" and "list_all (\<lambda>(elapsed, b). acceptable b) reqs"
  shows "connected (run (create_requests reqs) st)
       \<and> length (docs (run (create_requests reqs) st)) = length (docs st) + length reqs
       \<and> take (length (docs st)) (docs (run (create_requests reqs) st)) = docs st"
  using assms
proof (induction reqs arbitrary: st)
  case Nil
  then show ?case by (simp add: create_requests_def)
next
  case (Cons r reqs)
  obtain elapsed b where r: "r = (elapsed, b)"
    by (cases r)
  let ?st = "snd (post_thoughts elapsed b st)"
  have b: "acceptable b" and rest: "list_all (\<lambda>(elapsed, b). acceptable b) reqs"
    using Cons.prems(2) r by simp_all
  note step = post_thoughts_acceptable [OF Cons.prems(1) b, of elapsed]
  have c: "connected ?st"
    using Cons.prems(1) by (simp add: step)
  have d: "docs ?st = docs st @ [\<lparr>oid = next_oid st, message = body_message b, hearts = 0,
                             createdAt = clock st + int elapsed\<rparr>]"
    by (simp add: step)
  have run: "run (create_requests (r # reqs)) st = run (create_requests reqs) ?st"
    by (simp add: create_requests_def r)
  note IH = Cons.IH [OF c rest]
  have "take (length (docs st)) (docs (run (create_requests reqs) ?st)) =
        take (length (docs st)) (take (length (docs ?st)) (docs (run (create_requests reqs) ?st)))"
    by (simp add: d min_def)
  also have "\<dots> = take (length (docs st)) (docs ?st)"
    using IH by simp
  also have "\<dots> = docs st"
    by (simp add: d)
  finally show ?case
    using IH by (simp add: run d)
qed

lemma post_thoughts_chronological:
  assumes "connected st" and "acceptable b" and "0 < elapsed" and "chronological st"
  shows "chronological (snd (post_thoughts elapsed b st))"
proof -
  have old: "\<forall>t \<in> set (docs st). createdAt t \<le> clock st"
    using assms(4) by (simp add: chronological_def list_all_iff)
  then have "\<forall>t \<in> set (docs st). createdAt t < clock st + int elapsed"
    using assms(3) by fastforce
  moreover have "\<forall>t \<in> set (docs st). createdAt t \<le> clock st + int elapsed"
    using old by fastforce
  ultimately show ?thesis
    using assms(4)
    by (simp add: post_thoughts_acceptable [OF assms(1,2)] chronological_def
        sorted_wrt_append list_all_iff)
qed

lemma run_create_chronological:
  assumes "connected st" and "chronological st"
    and "list_all (\<lambda>(elapsed, b). acceptable b) reqs"
    and "list_all (\<lambda>(elapsed, b). 0 < elapsed) reqs"
  shows "chronological (run (create_requests reqs) st)"
  using assms
proof (induction reqs arbitrary: st)
  case Nil
  then show ?case by (simp add: create_requests_def)
next
  case (Cons r reqs)
  obtain elapsed b where r: "r = (elapsed, b)"
    by (cases r)
  let ?st = "snd (post_thoughts elapsed b st)"
  have b: "acceptable b" "0 < elapsed"
    and rest: "list_all (\<lambda>(elapsed, b). acceptable b) reqs"
      "list_all (\<lambda>(elapsed, b). 0 < elapsed) reqs"
    using Cons.prems(3,4) r by simp_all
  have c: "connected ?st"
    using Cons.prems(1) by (simp add: post_thoughts_acceptable [OF Cons.prems(1) b(1)])
  have "chronological ?st"
    using Cons.prems(1) b Cons.prems(2) by (rule post_thoughts_chronological)
  then have "chronological (run (create_requests reqs) ?st)"
    using c rest by (simp add: Cons.IH)
  then show ?case
    by (simp add: create_requests_def r)
qed

text \<open>
  Claim C4. While the store is reachable, the list request answers 200 with at most 20
  thoughts (20, or all of them when there are fewer), ordered by \<open>createdAt\<close>
  descending, all of them stored thoughts, and no stored thought left out is newer than
  one that is listed. After 25 accepted create requests the list has exactly 20
  thoughts; if the creations happened at strictly increasing times in a chronological
  store, these are the last 20 created, newest first.
\<close>

theorem list_returns_latest_20:
  assumes "connected st"
  shows "status (fst (get_thoughts st)) = 200
       \<and> length (listed (fst (get_thoughts st))) = min 20 (length (docs st))
       \<and> sorted_wrt (\<lambda>a b. createdAt b \<le> createdAt a) (listed (fst (get_thoughts st)))
       \<and> mset (listed (fst (get_thoughts st))) \<subseteq># mset (docs st)
       \<and> (\<forall>a \<in> set (listed (fst (get_thoughts st))).
            \<forall>b \<in># mset (docs st) - mset (listed (fst (get_thoughts st))).
              createdAt b \<le> createdAt a)
       \<and> (length reqs = 25 \<and> list_all (\<lambda>(elapsed, b). acceptable b) reqs \<longrightarrow>
            length (listed (fst (get_thoughts (run (create_requests reqs) st)))) = 20
            \<and> length (docs (run (create_requests reqs) st)) = length (docs st) + 25
            \<and> take (length (docs st)) (docs (run (create_requests reqs) st)) = docs st
            \<and> (chronological st \<and> list_all (\<lambda>(elapsed, b). 0 < elapsed) reqs \<longrightarrow>
                 listed (fst (get_thoughts (run (create_requests reqs) st))) =
                   take 20 (rev (docs (run (create_requests reqs) st)))))"
proof -
  let ?res = "listed (fst (get_thoughts st))"
  have res: "?res = take 20 (sort_key (\<lambda>t. - createdAt t) (docs st))"
    using assms by (rule listed_get_thoughts)
  have 1: "status (fst (get_thoughts st)) = 200"
    using assms by (simp add: get_thoughts_connected)
  have 2: "length ?res = min 20 (length (docs st))"
    by (simp add: res min_def)
  have 3: "sorted_wrt (\<lambda>a b. createdAt b \<le> createdAt a) ?res"
    unfolding res by (rule sorted_desc_take)
  have 4: "mset ?res \<subseteq># mset (docs st)"
    unfolding res by (rule mset_take_sort_subset)
  have 5: "\<forall>a \<in> set ?res. \<forall>b \<in># mset (docs st) - mset ?res. createdAt b \<le> createdAt a"
    unfolding res using top_of_sorted_desc by blast
  have 6: "length (listed (fst (get_thoughts (run (create_requests reqs) st)))) = 20
            \<and> length (docs (run (create_requests reqs) st)) = length (docs st) + 25
            \<and> take (length (docs st)) (docs (run (create_requests reqs) st)) = docs st
            \<and> (chronological st \<and> list_all (\<lambda>(elapsed, b). 0 < elapsed) reqs \<longrightarrow>
                 listed (fst (get_thoughts (run (create_requests reqs) st))) =
                   take 20 (rev (docs (run (create_requests reqs) st))))"
    if l: "length reqs = 25" and a: "list_all (\<lambda>(elapsed, b). acceptable b) reqs"
  proof -
    let ?st = "run (create_requests reqs) st"
    note r = run_create_requests [OF assms a]
    have c: "connected ?st"
      using r by simp
    have n: "length (docs ?st) = length (docs st) + 25"
      using r l by simp
    have "length (listed (fst (get_thoughts ?st))) = 20"
      by (simp add: listed_get_thoughts [OF c] n)
    moreover
    have "listed (fst (get_thoughts ?st)) = take 20 (rev (docs ?st))"
      if "chronological st" and "list_all (\<lambda>(elapsed, b). 0 < elapsed) reqs"
    proof -
      have "chronological ?st"
        using assms that(1) a that(2) by (rule run_create_chronological)
      then have "sort_key (\<lambda>t. - createdAt t) (docs ?st) = rev (docs ?st)"
        by (simp add: chronological_def sort_desc_chronological)
      then show ?thesis
        by (simp add: listed_get_thoughts [OF c])
    qed
    ultimately show ?thesis
      using r n by blast
  qed
  show ?thesis
    using 1 2 3 4 5 6 by blast
qed

theorem list_returns_latest_20_witness:
  "connected empty_store
   \<and> chronological empty_store
   \<and> length twenty_five_creates = 25
   \<and> length (docs after_25_creates) = 25
   \<and> length (listed (fst (get_thoughts after_25_creates))) = 20
   \<and> listed (fst (get_thoughts after_25_creates)) = take 20 (rev (docs after_25_creates))
   \<and> sorted_wrt (\<lambda>a b. createdAt b \<le> createdAt a) (listed (fst (get_thoughts after_25_creates)))
   \<and> createdAt (hd (docs after_25_creates)) \<le> createdAt (last (docs after_25_creates))"
proof -
  let ?st = after_25_creates
  have c0: "connected empty_store" and ch: "chronological empty_store"
    and d0: "docs empty_store = []"
    by (simp_all add: empty_store_def chronological_def)
  have len: "length twenty_five_creates = 25"
    by (simp add: twenty_five_creates_def)
  have acc: "list_all (\<lambda>(elapsed, b). acceptable b) twenty_five_creates"
    by (simp add: twenty_five_creates_def list_all_iff acceptable_def js_def)
  have pos: "list_all (\<lambda>(elapsed, b). 0 < elapsed) twenty_five_creates"
    by (simp add: twenty_five_creates_def list_all_iff)
  note T0 = list_returns_latest_20 [OF c0, of twenty_five_creates, THEN conjunct2, THEN conjunct2,
      THEN conjunct2, THEN conjunct2, THEN conjunct2, rule_format, OF conjI [OF len acc],
      folded after_25_creates_def]
  have n: "length (docs ?st) = 25"
    using T0 by (simp add: d0)
  have l20: "length (listed (fst (get_thoughts ?st))) = 20"
    using T0 by simp
  have eq: "listed (fst (get_thoughts ?st)) = take 20 (rev (docs ?st))"
    using T0 ch pos by simp
  have c: "connected ?st"
    unfolding after_25_creates_def using run_create_requests [OF c0 acc] by simp
  note T1 = list_returns_latest_20 [OF c, of "[]"]
  have srt: "sorted_wrt (\<lambda>a b. createdAt b \<le> createdAt a) (listed (fst (get_thoughts ?st)))"
    using T1 by simp
  have ball: "\<forall>a \<in> set (listed (fst (get_thoughts ?st))).
            \<forall>b \<in># mset (docs ?st) - mset (listed (fst (get_thoughts ?st))).
              createdAt b \<le> createdAt a"
    using T1 by blast
  have ne: "docs ?st \<noteq> []"
    using n by auto
  obtain xs x where sn: "docs ?st = xs @ [x]"
    using ne by (cases "docs ?st" rule: rev_cases) auto
  have a: "last (docs ?st) \<in> set (listed (fst (get_thoughts ?st)))"
    unfolding eq sn by simp
  have "mset (docs ?st) = mset (take 20 (rev (docs ?st))) + mset (drop 20 (rev (docs ?st)))"
    by (metis append_take_drop_id mset_append mset_rev)
  then have "mset (docs ?st) - mset (listed (fst (get_thoughts ?st))) = mset (drop 20 (rev (docs ?st)))"
    by (simp add: eq)
  moreover have "drop 20 (rev (docs ?st)) = rev (take 5 (docs ?st))"
    by (simp add: drop_rev n)
  moreover have "hd (docs ?st) \<in> set (take 5 (docs ?st))"
    using ne by (cases "docs ?st") simp_all
  ultimately have b: "hd (docs ?st) \<in># mset (docs ?st) - mset (listed (fst (get_thoughts ?st)))"
    by simp
  have "createdAt (hd (docs ?st)) \<le> createdAt (last (docs ?st))"
    using ball a b by blast
  then show ?thesis
    using c0 ch len n l20 eq srt by blast
qed

subsection \<open>What the requests leave unchanged\<close>

lemma get_thoughts_docs: "docs (snd (get_thoughts st)) = docs st"
  by (simp add: get_thoughts_def find_sort_limit_def Let_def)

lemma post_thoughts_docs:
  "docs (snd (post_thoughts elapsed b st)) = docs st
   \<or> (\<exists>t. docs (snd (post_thoughts elapsed b st)) = docs st @ [t])"
  by (cases "validate_message (body_message b)") (simp_all add: post_thoughts_eq Let_def)

lemma put_like_docs:
  "docs (snd (put_like id_str b st)) = docs st
   \<or> (\<exists>k n. (body_action b = Some (js ''add'') \<and> n = 1
              \<or> body_action b = Some (js ''remove'') \<and> n = - 1)
            \<and> docs (snd (put_like id_str b st)) =
                update_first k (\<lambda>t. t\<lparr>hearts := hearts t + n\<rparr>) (docs st))"
proof (cases "body_action b = Some (js ''add'') \<or> body_action b = Some (js ''remove'')")
  case True
  then obtain n :: int where n:
    "body_action b = Some (js ''add'') \<and> n = 1 \<or> body_action b = Some (js ''remove'') \<and> n = - 1"
    by auto
  show ?thesis
  proof (cases "cast_object_id id_str")
    case None
    then show ?thesis
      by (simp add: put_like_valid [OF n])
  next
    case (Some k)
    show ?thesis
    proof (cases "connected st")
      case False
      then show ?thesis
        by (simp add: put_like_valid [OF n] Some)
    next
      case c: True
      show ?thesis
      proof (cases "find_by_id k (docs st)")
        case None
        then show ?thesis
          by (simp add: put_like_valid [OF n] Some c)
      next
        case (Some t)
        have "docs (snd (put_like id_str b st)) =
                update_first k (\<lambda>t. t\<lparr>hearts := hearts t + n\<rparr>) (docs st)"
          by (simp add: put_like_valid [OF n] \<open>cast_object_id id_str = Some k\<close> c Some)
        then show ?thesis
          using n by blast
      qed
    qed
  qed
next
  case False
  then show ?thesis
    by (simp add: put_like_invalid)
qed

lemma map_frame_update_hearts:
  "map frame (update_first k (\<lambda>t. t\<lparr>hearts := g t\<rparr>) ts) = map frame ts"
  by (rule map_frame_update_first) (simp add: frame_def)

lemma handle_frame_prefix:
  "prefix (map frame (docs st)) (map frame (docs (snd (handle r st))))"
proof (cases r)
  case GetRoot
  then show ?thesis by (simp add: get_root_def)
next
  case GetThoughts
  then show ?thesis by (simp add: get_thoughts_docs)
next
  case (PostThoughts elapsed b)
  then show ?thesis
    using post_thoughts_docs [of elapsed b st] by auto
next
  case (PutLike id_str b)
  then show ?thesis
    using put_like_docs [of id_str b st] by (auto simp: map_frame_update_hearts)
qed

lemma run_frame_prefix:
  "prefix (map frame (docs st)) (map frame (docs (run rs st)))"
proof (induction rs arbitrary: st)
  case Nil
  then show ?case by simp
next
  case (Cons r rs)
  have "prefix (map frame (docs st)) (map frame (docs (snd (handle r st))))"
    by (rule handle_frame_prefix)
  also have "prefix \<dots> (map frame (docs (run rs (snd (handle r st)))))"
    by (rule Cons.IH)
  finally show ?case by simp
qed

lemma handle_nth:
  assumes "i < length (docs st)"
  shows "docs (snd (handle r st)) ! i = docs st ! i
       \<or> (\<exists>id_str b n. r = PutLike id_str b
            \<and> (body_action b = Some (js ''add'') \<and> n = 1
               \<or> body_action b = Some (js ''remove'') \<and> n = - 1)
            \<and> docs (snd (handle r st)) ! i = (docs st ! i)\<lparr>hearts := hearts (docs st ! i) + n\<rparr>)"
proof (cases r)
  case GetRoot
  then show ?thesis by (simp add: get_root_def)
next
  case GetThoughts
  then show ?thesis by (simp add: get_thoughts_docs)
next
  case (PostThoughts elapsed b)
  then show ?thesis
    using post_thoughts_docs [of elapsed b st] assms by (auto simp: nth_append)
next
  case (PutLike id_str b)
  consider "docs (snd (put_like id_str b st)) = docs st"
    | k n where "body_action b = Some (js ''add'') \<and> n = 1
              \<or> body_action b = Some (js ''remove'') \<and> n = - 1"
       "docs (snd (put_like id_str b st)) =
                update_first k (\<lambda>t. t\<lparr>hearts := hearts t + n\<rparr>) (docs st)"
    using put_like_docs [of id_str b st] by blast
  then show ?thesis
  proof cases
    case 1
    then show ?thesis using PutLike by simp
  next
    case 2
    from update_first_nth [OF assms, of k "\<lambda>t. t\<lparr>hearts := hearts t + n\<rparr>"]
    show ?thesis
      using 2 PutLike by auto
  qed
qed

lemma put_like_found:
  assumes "connected st" and "cast_object_id id_str = Some k"
    and "find_by_id k (docs st) = Some t"
    and "body_action b = Some (js ''add'') \<and> n = 1
       \<or> body_action b = Some (js ''remove'') \<and> n = - 1"
  shows "find_by_id k (docs (snd (put_like id_str b st))) = Some (t\<lparr>hearts := hearts t + n\<rparr>)"
  using assms(1-3) by (simp add: put_like_valid [OF assms(4)] find_by_id_update_first)

text \<open>
  Claim C9. Whatever requests are handled, in any number, every stored thought stays in
  the store at its place with the same identifier, message and \<open>createdAt\<close>: none is
  deleted. One request leaves a stored thought as it is or, when it is a like request with
  action "add" or "remove", changes nothing but \<open>hearts\<close>, by exactly \<open>+1\<close> or \<open>-1\<close>; and
  a like request that reaches a stored thought changes its \<open>hearts\<close> by exactly that.
\<close>

theorem requests_change_only_hearts:
  "prefix (map frame (docs st)) (map frame (docs (run rs st)))
   \<and> (\<forall>i < length (docs st).
        oid (docs (run rs st) ! i) = oid (docs st ! i)
        \<and> message (docs (run rs st) ! i) = message (docs st ! i)
        \<and> createdAt (docs (run rs st) ! i) = createdAt (docs st ! i))
   \<and> length (docs st) \<le> length (docs (run rs st))
   \<and> (\<forall>i < length (docs st).
        docs (snd (handle r st)) ! i = docs st ! i
        \<or> (\<exists>id_str b n. r = PutLike id_str b
             \<and> (body_action b = Some (js ''add'') \<and> n = 1
                \<or> body_action b = Some (js ''remove'') \<and> n = - 1)
             \<and> docs (snd (handle r st)) ! i =
                 (docs st ! i)\<lparr>hearts := hearts (docs st ! i) + n\<rparr>))
   \<and> (\<forall>id_str b k t n.
        connected st \<and> cast_object_id id_str = Some k \<and> find_by_id k (docs st) = Some t
        \<and> (body_action b = Some (js ''add'') \<and> n = 1
           \<or> body_action b = Some (js ''remove'') \<and> n = - 1) \<longrightarrow>
        find_by_id k (docs (snd (handle (PutLike id_str b) st))) =
          Some (t\<lparr>hearts := hearts t + n\<rparr>))"
proof -
  have p: "prefix (map frame (docs st)) (map frame (docs (run rs st)))"
    by (rule run_frame_prefix)
  then obtain zs where zs: "map frame (docs (run rs st)) = map frame (docs st) @ zs"
    by (auto simp: prefix_def)
  have len: "length (docs st) \<le> length (docs (run rs st))"
    using prefix_length_le [OF p] by simp
  have "frame (docs (run rs st) ! i) = frame (docs st ! i)" if "i < length (docs st)" for i
  proof -
    have "map frame (docs (run rs st)) ! i = map frame (docs st) ! i"
      using that by (simp add: zs nth_append)
    then show ?thesis
      using that len by simp
  qed
  then have same: "\<forall>i < length (docs st).
        oid (docs (run rs st) ! i) = oid (docs st ! i)
        \<and> message (docs (run rs st) ! i) = message (docs st ! i)
        \<and> createdAt (docs (run rs st) ! i) = createdAt (docs st ! i)"
    by (simp add: frame_def)
  have exact: "\<forall>id_str b k t n.
        connected st \<and> cast_object_id id_str = Some k \<and> find_by_id k (docs st) = Some t
        \<and> (body_action b = Some (js ''add'') \<and> n = 1
           \<or> body_action b = Some (js ''remove'') \<and> n = - 1) \<longrightarrow>
        find_by_id k (docs (snd (handle (PutLike id_str b) st))) =
          Some (t\<lparr>hearts := hearts t + n\<rparr>)"
  proof (intro allI impI, elim conjE)
    fix id_str :: js_string and b :: like_body and k t and n :: int
    assume "connected st" and "cast_object_id id_str = Some k"
      and "find_by_id k (docs st) = Some t"
      and "body_action b = Some (js ''add'') \<and> n = 1
         \<or> body_action b = Some (js ''remove'') \<and> n = - 1"
    then have "find_by_id k (docs (snd (put_like id_str b st))) =
          Some (t\<lparr>hearts := hearts t + n\<rparr>)"
      by (rule put_like_found)
    then show "find_by_id k (docs (snd (handle (PutLike id_str b) st))) =
          Some (t\<lparr>hearts := hearts t + n\<rparr>)"
      by simp
  qed
  show ?thesis
    using p same len handle_nth [of _ st r] exact by blast
qed

theorem requests_change_only_hearts_witness:
  "0 < length (docs one_thought_store)
   \<and> oid (docs (run example_requests one_thought_store) ! 0) = 10
   \<and> message (docs (run example_requests one_thought_store) ! 0) = Some (js ''Hello world'')
   \<and> createdAt (docs (run example_requests one_thought_store) ! 0) = 1699999999000
   \<and> 1 \<le> length (docs (run example_requests one_thought_store))
   \<and> docs (snd (handle GetThoughts one_thought_store)) ! 0 = stored_thought
   \<and> find_by_id 10 (docs (snd (handle (PutLike stored_id \<lparr>body_action = Some (js ''remove'')\<rparr>)
        one_thought_store))) = Some (stored_thought\<lparr>hearts := - 1\<rparr>)"
proof -
  have l: "0 < length (docs one_thought_store)"
    by (simp add: one_thought_store_def)
  have d: "docs one_thought_store ! 0 = stored_thought" "length (docs one_thought_store) = 1"
    by (simp_all add: one_thought_store_def)
  note T = requests_change_only_hearts [of one_thought_store example_requests GetThoughts]
  have "oid (docs (run example_requests one_thought_store) ! 0) = oid (docs one_thought_store ! 0)
        \<and> message (docs (run example_requests one_thought_store) ! 0) = message (docs one_thought_store ! 0)
        \<and> createdAt (docs (run example_requests one_thought_store) ! 0) = createdAt (docs one_thought_store ! 0)"
    by (rule T [THEN conjunct2, THEN conjunct1, rule_format]) (rule l)
  moreover
  have "length (docs one_thought_store) \<le> length (docs (run example_requests one_thought_store))"
    by (rule T [THEN conjunct2, THEN conjunct2, THEN conjunct1])
  moreover
  have "docs (snd (handle GetThoughts one_thought_store)) ! 0 = docs one_thought_store ! 0
        \<or> (\<exists>id_str b n. GetThoughts = PutLike id_str b
             \<and> (body_action b = Some (js ''add'') \<and> n = 1
                \<or> body_action b = Some (js ''remove'') \<and> n = - 1)
             \<and> docs (snd (handle GetThoughts one_thought_store)) ! 0 =
                 (docs one_thought_store ! 0)\<lparr>hearts := hearts (docs one_thought_store ! 0) + n\<rparr>)"
    by (rule T [THEN conjunct2, THEN conjunct2, THEN conjunct2, THEN conjunct1, rule_format])
       (rule l)
  then have "docs (snd (handle GetThoughts one_thought_store)) ! 0 = docs one_thought_store ! 0"
    by simp
  moreover
  have "find_by_id 10 (docs (snd (handle (PutLike stored_id \<lparr>body_action = Some (js ''remove'')\<rparr>)
        one_thought_store))) = Some (stored_thought\<lparr>hearts := hearts stored_thought + (- 1)\<rparr>)"
    by (rule T [THEN conjunct2, THEN conjunct2, THEN conjunct2, THEN conjunct2, rule_format])
       (simp add: one_thought_store_facts cast_stored_id)
  ultimately show ?thesis
    using l by (simp add: d stored_thought_def)
qed

end
